theory Spec2Isabelle
  imports Main
begin

section \<open>Errors\<close>

text \<open>
  A thrown JavaScript \<^verbatim>\<open>Error\<close> (or a rejected promise) is a value carrying its message.
  Every routine below returns its state together with either an error or its result:
  a throw does not undo the effects that came before it.
\<close>

datatype error = Error string

section \<open>The simulated chain of the test suite\<close>

text \<open>
  \<^verbatim>\<open>test/tx-builder/safety-module.spec.ts\<close> drives a simulated network through the
  helpers \<^verbatim>\<open>evmSnapshot\<close>, \<^verbatim>\<open>evmRevert\<close>, \<^verbatim>\<open>increaseTime\<close> and
  \<^verbatim>\<open>increaseTimeAndMine\<close> of \<^verbatim>\<open>helpers/misc-utils\<close>. What a snapshot captures is the
  chain state: the contracts' storage (left abstract, the type variable), the simulated
  time and the timestamps of the mined blocks.
\<close>

record 'c chain_state =
  storage :: 'c
  clock :: int
  blocks :: "int list"

record 'c evm =
  chain :: "'c chain_state"
  saved :: "string \<rightharpoonup> 'c chain_state"
  nextSnapshotId :: nat

subsection \<open>Snapshot handles\<close>

text \<open>
  A handle is an opaque string. The node numbers its snapshots and hands the number out
  written as a hexadecimal quantity, so two different numbers never give the same handle and
  no handle is the empty string.
\<close>

definition hexDigit :: "nat \<Rightarrow> char" where
  "hexDigit d = ''0123456789abcdef'' ! d"

fun hex :: "nat \<Rightarrow> string" where
  "hex n = (if n < 16 then [hexDigit n] else hex (n div 16) @ [hexDigit (n mod 16)])"

declare hex.simps [simp del]

definition rpcQuantity :: "nat \<Rightarrow> string" where
  "rpcQuantity n = ''0x'' @ hex n"

subsection \<open>The chain-time and snapshot primitives\<close>

text \<open>
  Modelled from the spec: the chain-time control collaborator (\<^verbatim>\<open>increaseTime\<close> and
  \<^verbatim>\<open>increaseTimeAndMine\<close> of \<^verbatim>\<open>helpers/misc-utils\<close>, not among the sources). Section 4.2:
  the helper "advances simulated time by that amount, optionally mining a block to commit
  the new timestamp".
\<close>

definition increaseTime :: "int \<Rightarrow> 'c evm \<Rightarrow> 'c evm" where
  "increaseTime secondsToIncrease n =
     n\<lparr>chain := (chain n)\<lparr>clock := clock (chain n) + secondsToIncrease\<rparr>\<rparr>"

definition mine :: "'c evm \<Rightarrow> 'c evm" where
  "mine n = n\<lparr>chain := (chain n)\<lparr>blocks := blocks (chain n) @ [clock (chain n)]\<rparr>\<rparr>"

definition increaseTimeAndMine :: "int \<Rightarrow> 'c evm \<Rightarrow> 'c evm" where
  "increaseTimeAndMine secondsToIncrease n = mine (increaseTime secondsToIncrease n)"

text \<open>
  Modelled from the spec: the snapshot primitives (\<^verbatim>\<open>evmSnapshot\<close> and \<^verbatim>\<open>evmRevert\<close> of
  \<^verbatim>\<open>helpers/misc-utils\<close>, not among the sources). Section 4.3 and the glossary: a
  snapshot is "a captured point-in-time state of the simulated chain that can be restored
  later", named by "an opaque chain-state handle"; a load "restores chain state to that
  handle". The spec does not say what a revert to a handle the node does not hold does; here
  it leaves the chain as it is, and no theorem below relies on that case.
\<close>

definition evmSnapshot :: "'c evm \<Rightarrow> string \<times> 'c evm" where
  "evmSnapshot n =
     (let h = rpcQuantity (nextSnapshotId n)
      in (h, n\<lparr>saved := (saved n)(h \<mapsto> chain n), nextSnapshotId := Suc (nextSnapshotId n)\<rparr>))"

definition evmRevert :: "string \<Rightarrow> 'c evm \<Rightarrow> 'c evm" where
  "evmRevert h n = (case saved n h of None \<Rightarrow> n | Some c \<Rightarrow> n\<lparr>chain := c\<rparr>)"

section \<open>The test helpers\<close>

text \<open>
  The state the helpers of the suite work on: the module-level
  \<^verbatim>\<open>const snapshots = new Map<string, string>()\<close> and the simulated node.
\<close>

record 'c harness =
  snapshots :: "string \<rightharpoonup> string"
  node :: "'c evm"

text \<open>
  \<^verbatim>\<open>BigNumber.toNumber()\<close> of the ethers library, which the suite imports: the value as a
  JavaScript number when it fits in 53 bits, and a thrown overflow fault otherwise.
\<close>

definition MAX_SAFE_INTEGER :: int where
  "MAX_SAFE_INTEGER = 2 ^ 53 - 1"

definition toNumber :: "int \<Rightarrow> error + int" where
  "toNumber v = (if \<bar>v\<bar> \<le> MAX_SAFE_INTEGER then Inr v else Inl (Error ''overflow''))"

text \<open>
  \<^verbatim>\<open>
  async function elapseEpoch(mineBlock: boolean = true): Promise<void> {
    let remaining = (await safetyModule.getTimeRemainingInCurrentEpoch()).toNumber();
    remaining ||= EPOCH_LENGTH.toNumber();
    if (mineBlock) {
      await increaseTimeAndMine(remaining);
    } else {
      await increaseTime(remaining);
    }
  }
  \<close>
  The contract's view \<^verbatim>\<open>getTimeRemainingInCurrentEpoch\<close>, which reads the chain state, and
  the constant \<^verbatim>\<open>EPOCH_LENGTH\<close> of \<^verbatim>\<open>helpers/constants\<close> are parameters, both big
  numbers. A throw of \<^verbatim>\<open>toNumber()\<close> ends the call before any time primitive runs.
  \<^verbatim>\<open>remaining ||= e\<close> evaluates \<^verbatim>\<open>e\<close> and assigns it exactly when the number
  \<^verbatim>\<open>remaining\<close> is \<^verbatim>\<open>0\<close>. An omitted \<^verbatim>\<open>mineBlock\<close> is \<open>None\<close> and takes the
  default \<^verbatim>\<open>true\<close>.
\<close>

definition elapseEpoch ::
  "('c chain_state \<Rightarrow> int) \<Rightarrow> int \<Rightarrow> bool option \<Rightarrow> 'c evm \<Rightarrow> (error + unit) \<times> 'c evm" where
  "elapseEpoch getTimeRemainingInCurrentEpoch EPOCH_LENGTH mineBlock n =
     (let mineBlock' = (case mineBlock of None \<Rightarrow> True | Some b \<Rightarrow> b)
      in (case toNumber (getTimeRemainingInCurrentEpoch (chain n)) of
            Inl e \<Rightarrow> (Inl e, n)
          | Inr remaining \<Rightarrow>
              (case (if remaining = 0 then toNumber EPOCH_LENGTH else Inr remaining) of
                 Inl e \<Rightarrow> (Inl e, n)
               | Inr remaining' \<Rightarrow>
                   (Inr (), if mineBlock' then increaseTimeAndMine remaining' n
                            else increaseTime remaining' n))))"

text \<open>
  \<^verbatim>\<open>
  async function saveSnapshot(label: string): Promise<void> {
    snapshots.set(label, await evmSnapshot());
  }
  \<close>
\<close>

definition saveSnapshot :: "string \<Rightarrow> 'c harness \<Rightarrow> 'c harness" where
  "saveSnapshot label s =
     (case evmSnapshot (node s) of
        (h, n') \<Rightarrow> \<lparr>snapshots = (snapshots s)(label \<mapsto> h), node = n'\<rparr>)"

text \<open>
  \<^verbatim>\<open>
  async function loadSnapshot(label: string): Promise<void> {
    const snapshot = snapshots.get(label);
    if (!snapshot) {
      throw new Error(`Cannot load since snapshot has not been saved: ${label}`);
    }
    await evmRevert(snapshot);
    snapshots.set(label, await evmSnapshot());
  }
  \<close>
  \<^verbatim>\<open>!snapshot\<close> holds for \<^verbatim>\<open>undefined\<close> (no entry) and for the empty string.
\<close>

definition loadSnapshot :: "string \<Rightarrow> 'c harness \<Rightarrow> (error + unit) \<times> 'c harness" where
  "loadSnapshot label s =
     (case snapshots s label of
        None \<Rightarrow>
          (Inl (Error (''Cannot load since snapshot has not been saved: '' @ label)), s)
      | Some snapshot \<Rightarrow>
          if snapshot = []
          then (Inl (Error (''Cannot load since snapshot has not been saved: '' @ label)), s)
          else (case evmSnapshot (evmRevert snapshot (node s)) of
                  (h, n') \<Rightarrow> (Inr (), \<lparr>snapshots = (snapshots s)(label \<mapsto> h), node = n'\<rparr>)))"

section \<open>The grants-program proposal script\<close>

text \<open>
  \<^verbatim>\<open>src/migrations/grants-program-proposal.ts\<close>. The \<^verbatim>\<open>Proposal\<close> of
  \<^verbatim>\<open>src/types\<close> is the tuple the script writes: executor, targets, values, signatures,
  calldatas, delegate-call flags, IPFS hash.
\<close>

type_synonym proposal =
  "string \<times> string list \<times> string list \<times> string list \<times> string list \<times> bool list \<times> string"

text \<open>
  A \<^verbatim>\<open>TransactionRequest\<close>: the three fields the script sets, and the fields
  \<^verbatim>\<open>populateTransaction\<close> resolves (nonce, gas, chain id) by name.
\<close>

record tx_request =
  tx_to :: "string option"
  tx_from :: "string option"
  tx_data :: "string option"
  tx_rest :: "(string \<times> string) list"

datatype signer = Signer (address: string)

text \<open>The two entries of the deployment configuration the script reads.\<close>

record deploy_config =
  DGP_MULTISIG_ADDRESS :: string
  DGP_FUNDING_AMOUNT :: string

record params =
  proposalIpfsHashHex :: string
  dydxTokenAddress :: string
  governorAddress :: string
  shortTimelockAddress :: string
  communityTreasuryAddress :: string
  signer :: "signer option"

record outcome =
  proposalId :: int

text \<open>
  Everything the script calls outside itself, in the order of the run: the logger and the
  console, the deployment configuration, the ABI coder, the governor contract and the
  signer. A call is written down with its arguments.
\<close>

datatype call =
    Log string
  | ConsoleLog string
  | GetDeployerSigner
  | GetProposalsCount signer string
  | AbiEncode "string list" "string list"
  | EncodeFunctionData string proposal
  | PopulateTransaction signer tx_request
  | SendTransaction signer tx_request
  | WaitForTx string

text \<open>
  The collaborators are parameters: what they answer is not the script's to decide. Reads
  answer from the state of the world \<open>'w\<close> (the chain and the deployment); sending a
  transaction and waiting for it change the world, also when they fail. The ABI coder is a
  function of its arguments that may throw. A transaction response is its hash.
\<close>

record 'w collaborators =
  getDeployerSigner :: "'w \<Rightarrow> error + signer"
  getProposalsCount :: "signer \<Rightarrow> string \<Rightarrow> 'w \<Rightarrow> error + int"
  abiEncode :: "string list \<Rightarrow> string list \<Rightarrow> error + string"
  encodeFunctionData :: "string \<Rightarrow> proposal \<Rightarrow> error + string"
  populateTransaction :: "signer \<Rightarrow> tx_request \<Rightarrow> 'w \<Rightarrow> error + tx_request"
  sendTransaction :: "signer \<Rightarrow> tx_request \<Rightarrow> 'w \<Rightarrow> (error + string) \<times> 'w"
  waitForTx :: "string \<Rightarrow> 'w \<Rightarrow> (error + unit) \<times> 'w"

record 'w run =
  world :: 'w
  calls :: "call list"

definition logCall :: "call \<Rightarrow> 'w run \<Rightarrow> 'w run" where
  "logCall x s = s\<lparr>calls := calls s @ [x]\<rparr>"

text \<open>
  \<^verbatim>\<open>
  const hre = getHre();
  const deployConfig = getDeployConfig();
  const deployer = signer || await getDeployerSigner();
  const deployerAddress = deployer.address;
  log(`Creating Grants Program proposal with proposer ${deployerAddress}.\n`);

  const governor = new DydxGovernor__factory(deployer).attach(governorAddress);
  const proposalId = await governor.getProposalsCount();
  const proposal: Proposal = [
    shortTimelockAddress,
    [communityTreasuryAddress],
    ['0'],
    ['transfer(address,address,uint256)'],
    [hre.ethers.utils.defaultAbiCoder.encode(
      ['address', 'address', 'uint256'],
      [dydxTokenAddress, deployConfig.DGP_MULTISIG_ADDRESS, deployConfig.DGP_FUNDING_AMOUNT],
    )],
    [false],
    proposalIpfsHashHex,
  ];

  const callData = governor.interface.encodeFunctionData('create', proposal);
  const partialTxRequest: TransactionRequest = {
    to: governor.address,
    from: deployer.address,
    data: callData,
  };
  const txRequest: TransactionRequest = await deployer.populateTransaction(partialTxRequest);
  console.log('Calldata:');
  console.log(txRequest.data);
  console.log('End calldata:');
  await waitForTx(await deployer.sendTransaction(txRequest));

  return {
    proposalId,
  };
  \<close>
  The contract attached at \<^verbatim>\<open>governorAddress\<close> has that address as its
  \<^verbatim>\<open>governor.address\<close>. \<^verbatim>\<open>console.log\<close> of an absent \<^verbatim>\<open>data\<close> prints
  \<^verbatim>\<open>undefined\<close>. An error of a collaborator ends the run where it is thrown.
\<close>

definition createGrantsProgramProposal ::
  "'w collaborators \<Rightarrow> deploy_config \<Rightarrow> params \<Rightarrow> 'w run \<Rightarrow> (error + outcome) \<times> 'w run" where
  "createGrantsProgramProposal c deployConfig a s0 =
    (case (case signer a of
             Some sg \<Rightarrow> (Inr sg, s0)
           | None \<Rightarrow> (getDeployerSigner c (world s0), logCall GetDeployerSigner s0)) of
       (Inl e, s1) \<Rightarrow> (Inl e, s1)
     | (Inr deployer, s1) \<Rightarrow>
        (let deployerAddress = address deployer;
             s2 = logCall (Log (''Creating Grants Program proposal with proposer ''
                    @ deployerAddress @ ''.'' @ [CHR 0x0A])) s1;
             s3 = logCall (GetProposalsCount deployer (governorAddress a)) s2
         in (case getProposalsCount c deployer (governorAddress a) (world s3) of
               Inl e \<Rightarrow> (Inl e, s3)
             | Inr proposalId' \<Rightarrow>
        (let types = [''address'', ''address'', ''uint256''];
             vals = [dydxTokenAddress a, DGP_MULTISIG_ADDRESS deployConfig,
                     DGP_FUNDING_AMOUNT deployConfig];
             s4 = logCall (AbiEncode types vals) s3
         in (case abiEncode c types vals of
               Inl e \<Rightarrow> (Inl e, s4)
             | Inr encoded \<Rightarrow>
        (let proposal = (shortTimelockAddress a,
                         [communityTreasuryAddress a],
                         [''0''],
                         [''transfer(address,address,uint256)''],
                         [encoded],
                         [False],
                         proposalIpfsHashHex a);
             s5 = logCall (EncodeFunctionData ''create'' proposal) s4
         in (case encodeFunctionData c ''create'' proposal of
               Inl e \<Rightarrow> (Inl e, s5)
             | Inr callData \<Rightarrow>
        (let partialTxRequest =
               \<lparr>tx_to = Some (governorAddress a),
                tx_from = Some (address deployer),
                tx_data = Some callData,
                tx_rest = []\<rparr>;
             s6 = logCall (PopulateTransaction deployer partialTxRequest) s5
         in (case populateTransaction c deployer partialTxRequest (world s6) of
               Inl e \<Rightarrow> (Inl e, s6)
             | Inr txRequest \<Rightarrow>
        (let s7 = logCall (ConsoleLog ''Calldata:'') s6;
             s8 = logCall (ConsoleLog (case tx_data txRequest of
                             Some d \<Rightarrow> d | None \<Rightarrow> ''undefined'')) s7;
             s9 = logCall (ConsoleLog ''End calldata:'') s8;
             s10 = logCall (SendTransaction deployer txRequest) s9
         in (case sendTransaction c deployer txRequest (world s10) of
               (Inl e, w) \<Rightarrow> (Inl e, s10\<lparr>world := w\<rparr>)
             | (Inr tx, w) \<Rightarrow>
        (let s11 = logCall (WaitForTx tx) (s10\<lparr>world := w\<rparr>)
         in (case waitForTx c tx (world s11) of
               (Inl e, w') \<Rightarrow> (Inl e, s11\<lparr>world := w'\<rparr>)
             | (Inr u, w') \<Rightarrow>
                 (Inr \<lparr>proposalId = proposalId'\<rparr>, s11\<lparr>world := w'\<rparr>))))))))))))))"

section \<open>Example states\<close>

text \<open>
  A node with one contract word of storage, and a suite state in which the label
  \<^verbatim>\<open>AfterStack\<close> was saved and the chain has moved on since.
\<close>

definition demo_node :: "nat evm" where
  "demo_node =
     \<lparr>chain = \<lparr>storage = 7, clock = 1000, blocks = [1000]\<rparr>,
      saved = Map.empty, nextSnapshotId = 1\<rparr>"

definition demo_harness :: "nat harness" where
  "demo_harness =
     (let s = saveSnapshot ''AfterStack'' \<lparr>snapshots = Map.empty, node = demo_node\<rparr>
      in s\<lparr>node := increaseTimeAndMine 60 ((node s)\<lparr>chain := (chain (node s))\<lparr>storage := 8\<rparr>\<rparr>)\<rparr>)"

text \<open>
  A world that is the governor's proposal count: a sent transaction creates a proposal,
  every call answers.
\<close>

definition demo_collaborators :: "nat collaborators" where
  "demo_collaborators =
     \<lparr>getDeployerSigner = (\<lambda>w. Inr (Signer ''0xD'')),
      getProposalsCount = (\<lambda>sg g w. Inr (int w)),
      abiEncode = (\<lambda>ts vs. Inr (concat vs)),
      encodeFunctionData = (\<lambda>f p. Inr (f @ ''('' @ concat (fst (snd (snd (snd (snd p))))) @ '')'')),
      populateTransaction = (\<lambda>sg t w. Inr (t\<lparr>tx_rest := [(''nonce'', ''0'')]\<rparr>)),
      sendTransaction = (\<lambda>sg t w. (Inr ''0xabc'', Suc w)),
      waitForTx = (\<lambda>tx w. (Inr (), w))\<rparr>"


definition demo_config :: deploy_config where
  "demo_config = \<lparr>DGP_MULTISIG_ADDRESS = ''0xM'', DGP_FUNDING_AMOUNT = ''6250''\<rparr>"

definition demo_params :: params where
  "demo_params =
     \<lparr>proposalIpfsHashHex = ''0x1f'', dydxTokenAddress = ''0xT'', governorAddress = ''0xG'',
      shortTimelockAddress = ''0xS'', communityTreasuryAddress = ''0xC'', signer = None\<rparr>"

definition demo_run :: "nat run" where
  "demo_run = \<lparr>world = 3, calls = []\<rparr>"

section \<open>Facts about handles and the primitives\<close>

lemma hex_not_Nil: "hex n \<noteq> []"
  by (subst hex.simps) simp

lemma rpcQuantity_not_Nil: "rpcQuantity n \<noteq> []"
  by (simp add: rpcQuantity_def)

lemma hexDigit_inj: "a < 16 \<Longrightarrow> b < 16 \<Longrightarrow> hexDigit a = hexDigit b \<Longrightarrow> a = b"
proof -
  assume a: "a < 16" and b: "b < 16" and e: "hexDigit a = hexDigit b"
  have d: "distinct ''0123456789abcdef''" by simp
  have l: "length ''0123456789abcdef'' = 16" by simp
  from e show "a = b"
    unfolding hexDigit_def using nth_eq_iff_index_eq [OF d, of a b] a b l by simp
qed

lemma hex_length: "n \<ge> 16 \<Longrightarrow> length (hex n) \<ge> 2"
  by (subst hex.simps) (simp add: Suc_le_eq hex_not_Nil)

lemma hex_inj: "hex n = hex m \<Longrightarrow> n = m"
proof (induction n arbitrary: m rule: hex.induct)
  case (1 n)
  show ?case
  proof (cases "n < 16")
    case True
    then have hn: "hex n = [hexDigit n]" by (subst hex.simps) simp
    show ?thesis
    proof (cases "m < 16")
      case True
      then have "hex m = [hexDigit m]" by (subst hex.simps) simp
      with hn "1.prems" \<open>n < 16\<close> True show ?thesis by (auto dest: hexDigit_inj)
    next
      case False
      then have "length (hex m) \<ge> 2" by (simp add: hex_length)
      with hn "1.prems" show ?thesis by simp
    qed
  next
    case False
    then have hn: "hex n = hex (n div 16) @ [hexDigit (n mod 16)]" by (subst hex.simps) simp
    show ?thesis
    proof (cases "m < 16")
      case True
      then have "hex m = [hexDigit m]" by (subst hex.simps) simp
      moreover from False have "length (hex n) \<ge> 2" by (simp add: hex_length)
      ultimately show ?thesis using "1.prems" by simp
    next
      case mf: False
      then have hm: "hex m = hex (m div 16) @ [hexDigit (m mod 16)]" by (subst hex.simps) simp
      from hn hm "1.prems" have e1: "hex (n div 16) = hex (m div 16)"
        and e2: "hexDigit (n mod 16) = hexDigit (m mod 16)" by simp_all
      from "1.IH" [OF False e1] have d: "n div 16 = m div 16" .
      from e2 have r: "n mod 16 = m mod 16" by (auto dest!: hexDigit_inj [rotated 2])
      from d r show ?thesis by (metis div_mult_mod_eq)
    qed
  qed
qed

lemma rpcQuantity_inj: "rpcQuantity n = rpcQuantity m \<Longrightarrow> n = m"
  by (simp add: rpcQuantity_def hex_inj)

lemma evmSnapshot_simps:
  "fst (evmSnapshot n) = rpcQuantity (nextSnapshotId n)"
  "chain (snd (evmSnapshot n)) = chain n"
  "saved (snd (evmSnapshot n)) = (saved n)(rpcQuantity (nextSnapshotId n) \<mapsto> chain n)"
  "nextSnapshotId (snd (evmSnapshot n)) = Suc (nextSnapshotId n)"
  by (simp_all add: evmSnapshot_def Let_def)

lemma evmRevert_held:
  "saved n h = Some c \<Longrightarrow> evmRevert h n = n\<lparr>chain := c\<rparr>"
  by (simp add: evmRevert_def)

lemma loadSnapshot_held:
  assumes "snapshots s label = Some h" and "h \<noteq> []"
  shows "loadSnapshot label s =
           (Inr (), \<lparr>snapshots = (snapshots s)(label \<mapsto> fst (evmSnapshot (evmRevert h (node s)))),
                     node = snd (evmSnapshot (evmRevert h (node s)))\<rparr>)"
  using assms by (simp add: loadSnapshot_def split: prod.splits)

text \<open>A label just saved holds a handle the node issued for the chain state of that moment.\<close>

lemma saveSnapshot_saved:
  "snapshots (saveSnapshot label s) label = Some (rpcQuantity (nextSnapshotId (node s)))"
  "nextSnapshotId (node s) < nextSnapshotId (node (saveSnapshot label s))"
  "saved (node (saveSnapshot label s)) (rpcQuantity (nextSnapshotId (node s)))
     = Some (chain (node s))"
  "chain (node (saveSnapshot label s)) = chain (node s)"
  by (simp_all add: saveSnapshot_def evmSnapshot_def Let_def)

section \<open>The epoch-advancement helper\<close>

lemma toNumber_safe: "\<bar>v\<bar> \<le> MAX_SAFE_INTEGER \<Longrightarrow> toNumber v = Inr v"
  by (simp add: toNumber_def)

lemma toNumber_overflow: "MAX_SAFE_INTEGER < \<bar>v\<bar> \<Longrightarrow> toNumber v = Inl (Error ''overflow'')"
  by (simp add: toNumber_def)

text \<open>
  Claim C1, as the code has it. A call of \<^verbatim>\<open>elapseEpoch\<close> in which the reported remaining
  time, and \<^verbatim>\<open>EPOCH_LENGTH\<close> when that time is zero, are at most \<^verbatim>\<open>2^53 - 1\<close> in absolute
  value returns, and moves the simulated time forward by exactly \<^verbatim>\<open>EPOCH_LENGTH\<close> when the
  report is zero and by exactly the reported remaining time otherwise, whether or not a block
  is mined; the contracts' storage stays, and a block with the new time is mined unless
  \<^verbatim>\<open>mineBlock\<close> is \<^verbatim>\<open>false\<close>. A call in which the report, or \<^verbatim>\<open>EPOCH_LENGTH\<close> at a report of zero, is beyond
  that range throws the overflow fault of \<^verbatim>\<open>toNumber()\<close> and leaves the node as it was.
\<close>

theorem elapseEpoch_advances_clock:
  "(\<bar>getTimeRemainingInCurrentEpoch (chain n)\<bar> \<le> MAX_SAFE_INTEGER
      \<and> (getTimeRemainingInCurrentEpoch (chain n) = 0 \<longrightarrow> \<bar>EPOCH_LENGTH\<bar> \<le> MAX_SAFE_INTEGER)
    \<longrightarrow> (\<exists>n'. elapseEpoch getTimeRemainingInCurrentEpoch EPOCH_LENGTH mineBlock n = (Inr (), n')
            \<and> clock (chain n') - clock (chain n)
                = (if getTimeRemainingInCurrentEpoch (chain n) = 0 then EPOCH_LENGTH
                   else getTimeRemainingInCurrentEpoch (chain n))
            \<and> storage (chain n') = storage (chain n)
            \<and> blocks (chain n')
                = (if mineBlock = Some False then blocks (chain n)
                   else blocks (chain n) @ [clock (chain n')])))
   \<and> (MAX_SAFE_INTEGER < \<bar>getTimeRemainingInCurrentEpoch (chain n)\<bar>
        \<or> getTimeRemainingInCurrentEpoch (chain n) = 0 \<and> MAX_SAFE_INTEGER < \<bar>EPOCH_LENGTH\<bar>
    \<longrightarrow> elapseEpoch getTimeRemainingInCurrentEpoch EPOCH_LENGTH mineBlock n
          = (Inl (Error ''overflow''), n))"
  by (simp add: elapseEpoch_def toNumber_def increaseTimeAndMine_def increaseTime_def mine_def
        Let_def split: option.splits)

theorem elapseEpoch_advances_clock_witness:
  "(\<exists>n'. elapseEpoch (\<lambda>c. 0) 2419200 None demo_node = (Inr (), n')
         \<and> clock (chain n') - clock (chain demo_node) = 2419200)
   \<and> (\<exists>n'. elapseEpoch (\<lambda>c. 86400 - clock c mod 86400) 2419200 (Some False) demo_node
              = (Inr (), n')
         \<and> clock (chain n') - clock (chain demo_node) = 85400)
   \<and> elapseEpoch (\<lambda>c. 9007199254740992) 2419200 None demo_node
        = (Inl (Error ''overflow''), demo_node)
   \<and> elapseEpoch (\<lambda>c. 0) 9007199254740992 None demo_node
        = (Inl (Error ''overflow''), demo_node)"
  using elapseEpoch_advances_clock [of "\<lambda>c. 0" demo_node 2419200 None]
    elapseEpoch_advances_clock [of "\<lambda>c. 0" demo_node 9007199254740992 None]
    elapseEpoch_advances_clock [of "\<lambda>c. 86400 - clock c mod 86400" demo_node 2419200 "Some False"]
    elapseEpoch_advances_clock [of "\<lambda>c. 9007199254740992" demo_node 2419200 None]
  by (auto simp: demo_node_def MAX_SAFE_INTEGER_def)

text \<open>
  Without the bound on the report the statement fails: at a report of \<^verbatim>\<open>2^53\<close> seconds the call
  throws and the time does not move.
\<close>

theorem elapseEpoch_advances_clock_counterexample:
  "fst (elapseEpoch (\<lambda>c. 9007199254740992) 2419200 None demo_node) = Inl (Error ''overflow'')
   \<and> clock (chain (snd (elapseEpoch (\<lambda>c. 9007199254740992) 2419200 None demo_node)))
       - clock (chain demo_node) = 0
   \<and> \<not> (clock (chain (snd (elapseEpoch (\<lambda>c. 9007199254740992) 2419200 None demo_node)))
           - clock (chain demo_node) = 9007199254740992)"
  by (simp add: elapseEpoch_def toNumber_def MAX_SAFE_INTEGER_def demo_node_def)

text \<open>
  Claim C10, as the code has it. When the reported remaining time is not negative and at most
  \<^verbatim>\<open>2^53 - 1\<close>, and \<^verbatim>\<open>EPOCH_LENGTH\<close> is positive, and at most \<^verbatim>\<open>2^53 - 1\<close> when the
  report is zero, a call of \<^verbatim>\<open>elapseEpoch\<close> returns and moves the simulated time strictly
  forward: the time after the call is later than the time before it.
\<close>

theorem elapseEpoch_advance_positive:
  assumes "0 \<le> getTimeRemainingInCurrentEpoch (chain n)" and "0 < EPOCH_LENGTH"
    and "getTimeRemainingInCurrentEpoch (chain n) \<le> MAX_SAFE_INTEGER"
    and "getTimeRemainingInCurrentEpoch (chain n) = 0 \<longrightarrow> EPOCH_LENGTH \<le> MAX_SAFE_INTEGER"
  shows "\<exists>n'. elapseEpoch getTimeRemainingInCurrentEpoch EPOCH_LENGTH mineBlock n = (Inr (), n')
           \<and> clock (chain n) < clock (chain n')"
  using assms
  by (simp add: elapseEpoch_def toNumber_def increaseTimeAndMine_def increaseTime_def mine_def
        Let_def)

theorem elapseEpoch_advance_positive_witness:
  "(0::int) \<le> 0 \<and> (0::int) < 2419200 \<and> (0::int) \<le> MAX_SAFE_INTEGER
   \<and> (2419200::int) \<le> MAX_SAFE_INTEGER
   \<and> clock (chain demo_node) = 1000
   \<and> (\<exists>n'. elapseEpoch (\<lambda>c. 0) 2419200 (Some True) demo_node = (Inr (), n')
          \<and> clock (chain demo_node) < clock (chain n'))"
proof -
  have r: "(0::int) \<le> (\<lambda>c::nat chain_state. 0) (chain demo_node)"
    and e: "(0::int) < 2419200"
    and rs: "(\<lambda>c::nat chain_state. 0::int) (chain demo_node) \<le> MAX_SAFE_INTEGER"
    and es: "(\<lambda>c::nat chain_state. 0::int) (chain demo_node) = 0
               \<longrightarrow> (2419200::int) \<le> MAX_SAFE_INTEGER"
    by (simp_all add: MAX_SAFE_INTEGER_def)
  have "\<exists>n'. elapseEpoch (\<lambda>c. 0) 2419200 (Some True) demo_node = (Inr (), n')
          \<and> clock (chain demo_node) < clock (chain n')"
    using r e rs es by (rule elapseEpoch_advance_positive)
  then show ?thesis by (simp add: demo_node_def MAX_SAFE_INTEGER_def)
qed

text \<open>
  Without the upper bound the statement fails: a report of \<^verbatim>\<open>2^53\<close> seconds is not negative and
  \<^verbatim>\<open>EPOCH_LENGTH\<close> is positive, yet the call throws and the time after it is not later.
\<close>

theorem elapseEpoch_advance_positive_counterexample:
  "(0::int) \<le> 9007199254740992 \<and> (0::int) < 2419200
   \<and> fst (elapseEpoch (\<lambda>c. 9007199254740992) 2419200 None demo_node) = Inl (Error ''overflow'')
   \<and> \<not> clock (chain demo_node)
         < clock (chain (snd (elapseEpoch (\<lambda>c. 9007199254740992) 2419200 None demo_node)))"
  by (simp add: elapseEpoch_def toNumber_def MAX_SAFE_INTEGER_def demo_node_def)

section \<open>The snapshot store\<close>

text \<open>
  Claim C3. For a label with no entry in the snapshot store, \<^verbatim>\<open>loadSnapshot\<close> throws
  an error whose message ends with the label, and leaves the store and the node, hence the
  chain state, exactly as they were.
\<close>

theorem loadSnapshot_unknown_label:
  assumes "snapshots s label = None"
  shows "loadSnapshot label s =
           (Inl (Error (''Cannot load since snapshot has not been saved: '' @ label)), s)"
  using assms by (simp add: loadSnapshot_def)

theorem loadSnapshot_unknown_label_witness:
  "snapshots demo_harness ''AfterMockTokenMint'' = None
   \<and> loadSnapshot ''AfterMockTokenMint'' demo_harness =
       (Inl (Error ''Cannot load since snapshot has not been saved: AfterMockTokenMint''),
        demo_harness)"
proof -
  have none: "snapshots demo_harness ''AfterMockTokenMint'' = None"
    by (simp add: demo_harness_def saveSnapshot_def evmSnapshot_def Let_def)
  from loadSnapshot_unknown_label [OF none] none show ?thesis by simp
qed

text \<open>
  Claim C4. Let the store hold, for the label, a handle the node issued earlier for the chain
  state \<open>c\<close>. Then \<^verbatim>\<open>loadSnapshot\<close> succeeds; it first reverts the chain to \<open>c\<close>
  and then takes a snapshot of the reverted node; the store afterwards maps the label to the
  handle of that new snapshot, in place of the old handle and different from it; and the new
  handle names the state just restored.
\<close>

theorem loadSnapshot_restores_then_resaves:
  assumes "snapshots s label = Some (rpcQuantity k)"
    and "k < nextSnapshotId (node s)"
    and "saved (node s) (rpcQuantity k) = Some c"
  shows "\<exists>h' s'. loadSnapshot label s = (Inr (), s')
           \<and> chain (evmRevert (rpcQuantity k) (node s)) = c
           \<and> evmSnapshot (evmRevert (rpcQuantity k) (node s)) = (h', node s')
           \<and> snapshots s' = (snapshots s)(label \<mapsto> h')
           \<and> h' \<noteq> rpcQuantity k
           \<and> saved (node s') h' = Some c
           \<and> chain (node s') = c"
proof -
  let ?n1 = "evmRevert (rpcQuantity k) (node s)"
  let ?h' = "fst (evmSnapshot ?n1)"
  let ?s' = "\<lparr>snapshots = (snapshots s)(label \<mapsto> ?h'), node = snd (evmSnapshot ?n1)\<rparr>"
  have n1: "?n1 = (node s)\<lparr>chain := c\<rparr>"
    using assms(3) by (rule evmRevert_held)
  have load: "loadSnapshot label s = (Inr (), ?s')"
    using assms(1) rpcQuantity_not_Nil by (rule loadSnapshot_held)
  have fresh: "?h' \<noteq> rpcQuantity k"
    using assms(2) by (auto simp: evmSnapshot_simps n1 dest: rpcQuantity_inj)
  have "chain ?n1 = c" by (simp add: n1)
  moreover have "evmSnapshot ?n1 = (?h', node ?s')" by simp
  moreover have "snapshots ?s' = (snapshots s)(label \<mapsto> ?h')" by simp
  moreover have "saved (node ?s') ?h' = Some c" by (simp add: evmSnapshot_simps n1)
  moreover have "chain (node ?s') = c" by (simp add: evmSnapshot_simps n1)
  ultimately show ?thesis using load fresh by blast
qed

theorem loadSnapshot_restores_then_resaves_witness:
  "\<exists>h' s'. loadSnapshot ''AfterStack'' demo_harness = (Inr (), s')
     \<and> chain (node s') = \<lparr>storage = 7, clock = 1000, blocks = [1000]\<rparr>
     \<and> chain (node demo_harness) = \<lparr>storage = 8, clock = 1060, blocks = [1000, 1060]\<rparr>
     \<and> snapshots demo_harness ''AfterStack'' = Some ''0x1''
     \<and> snapshots s' ''AfterStack'' = Some h'
     \<and> h' \<noteq> ''0x1''
     \<and> saved (node s') h' = Some (chain (node s'))"
proof -
  have q: "rpcQuantity 1 = ''0x1''"
    by (simp add: rpcQuantity_def hex.simps hexDigit_def)
  have a1: "snapshots demo_harness ''AfterStack'' = Some (rpcQuantity 1)"
    and a2: "1 < nextSnapshotId (node demo_harness)"
    and a3: "saved (node demo_harness) (rpcQuantity 1)
               = Some \<lparr>storage = 7, clock = 1000, blocks = [1000]\<rparr>"
    and now: "chain (node demo_harness) = \<lparr>storage = 8, clock = 1060, blocks = [1000, 1060]\<rparr>"
    by (simp_all add: demo_harness_def demo_node_def saveSnapshot_def evmSnapshot_def
          increaseTimeAndMine_def increaseTime_def mine_def Let_def)
  from loadSnapshot_restores_then_resaves [OF a1 a2 a3, unfolded q] a1 [unfolded q] now
  show ?thesis by auto
qed

text \<open>
  Claim C7. Let the store hold, for the label, a non-empty handle under which the node keeps
  the chain state \<open>c\<close>. Loading the label twice in a row, with nothing in between, succeeds
  both times and leaves the same chain state \<open>c\<close> both times, so every read-only query of the
  chain state answers the same after the second load as after the first.
\<close>

theorem loadSnapshot_twice_same_state:
  assumes "snapshots s label = Some h" and "h \<noteq> []" and "saved (node s) h = Some c"
  shows "\<exists>s1 s2. loadSnapshot label s = (Inr (), s1)
           \<and> loadSnapshot label s1 = (Inr (), s2)
           \<and> chain (node s1) = c
           \<and> chain (node s2) = chain (node s1)
           \<and> query (chain (node s2)) = query (chain (node s1))"
proof -
  let ?n1 = "evmRevert h (node s)"
  let ?h1 = "fst (evmSnapshot ?n1)"
  let ?s1 = "\<lparr>snapshots = (snapshots s)(label \<mapsto> ?h1), node = snd (evmSnapshot ?n1)\<rparr>"
  let ?n2 = "evmRevert ?h1 (node ?s1)"
  let ?h2 = "fst (evmSnapshot ?n2)"
  let ?s2 = "\<lparr>snapshots = (snapshots ?s1)(label \<mapsto> ?h2), node = snd (evmSnapshot ?n2)\<rparr>"
  have n1: "?n1 = (node s)\<lparr>chain := c\<rparr>"
    using assms(3) by (rule evmRevert_held)
  have load1: "loadSnapshot label s = (Inr (), ?s1)"
    using assms(1,2) by (rule loadSnapshot_held)
  have c1: "chain (node ?s1) = c" by (simp add: evmSnapshot_simps n1)
  have "snapshots ?s1 label = Some ?h1" by simp
  moreover have "?h1 \<noteq> []" by (simp add: evmSnapshot_simps rpcQuantity_not_Nil)
  ultimately have load2: "loadSnapshot label ?s1 = (Inr (), ?s2)"
    by (rule loadSnapshot_held)
  have "saved (node ?s1) ?h1 = Some c" by (simp add: evmSnapshot_simps n1)
  then have "?n2 = (node ?s1)\<lparr>chain := c\<rparr>" by (rule evmRevert_held)
  then have c2: "chain (node ?s2) = c" by (simp add: evmSnapshot_simps)
  from load1 load2 c1 c2 show ?thesis by (metis (no_types))
qed

theorem loadSnapshot_twice_same_state_witness:
  "\<exists>s1 s2. loadSnapshot ''AfterStack'' demo_harness = (Inr (), s1)
     \<and> loadSnapshot ''AfterStack'' s1 = (Inr (), s2)
     \<and> chain (node s1) = \<lparr>storage = 7, clock = 1000, blocks = [1000]\<rparr>
     \<and> chain (node s2) = chain (node s1)
     \<and> storage (chain (node s2)) = storage (chain (node s1))"
proof -
  have a1: "snapshots demo_harness ''AfterStack'' = Some ''0x1''"
    and a3: "saved (node demo_harness) ''0x1''
               = Some \<lparr>storage = 7, clock = 1000, blocks = [1000]\<rparr>"
    by (simp_all add: demo_harness_def demo_node_def saveSnapshot_def evmSnapshot_def
          increaseTimeAndMine_def increaseTime_def mine_def Let_def
          rpcQuantity_def hex.simps hexDigit_def)
  have a2: "''0x1'' \<noteq> []" by simp
  from loadSnapshot_twice_same_state [OF a1 a2 a3, of storage] show ?thesis .
qed

section \<open>The proposal script\<close>

lemma logCall_simps [simp]:
  "world (logCall x s) = world s"
  "calls (logCall x s) = calls s @ [x]"
  by (simp_all add: logCall_def)

text \<open>
  What a run that returns has done: every collaborator answered, in the order of the script,
  and these are the calls it made.
\<close>

lemma createGrantsProgramProposal_success:
  assumes "createGrantsProgramProposal c deployConfig a s = (Inr r, s')"
  shows "\<exists>deployer encoded callData txRequest tx w.
      (case signer a of Some sg \<Rightarrow> Inr sg | None \<Rightarrow> getDeployerSigner c (world s)) = Inr deployer
    \<and> getProposalsCount c deployer (governorAddress a) (world s) = Inr (proposalId r)
    \<and> abiEncode c [''address'', ''address'', ''uint256'']
         [dydxTokenAddress a, DGP_MULTISIG_ADDRESS deployConfig, DGP_FUNDING_AMOUNT deployConfig]
        = Inr encoded
    \<and> encodeFunctionData c ''create''
         (shortTimelockAddress a, [communityTreasuryAddress a], [''0''],
          [''transfer(address,address,uint256)''], [encoded], [False], proposalIpfsHashHex a)
        = Inr callData
    \<and> populateTransaction c deployer
         \<lparr>tx_to = Some (governorAddress a), tx_from = Some (address deployer),
          tx_data = Some callData, tx_rest = []\<rparr> (world s) = Inr txRequest
    \<and> sendTransaction c deployer txRequest (world s) = (Inr tx, w)
    \<and> waitForTx c tx w = (Inr (), world s')
    \<and> calls s' = calls s
         @ (case signer a of Some sg \<Rightarrow> [] | None \<Rightarrow> [GetDeployerSigner])
         @ [Log (''Creating Grants Program proposal with proposer '' @ address deployer
                  @ ''.'' @ [CHR 0x0A]),
            GetProposalsCount deployer (governorAddress a),
            AbiEncode [''address'', ''address'', ''uint256'']
              [dydxTokenAddress a, DGP_MULTISIG_ADDRESS deployConfig,
               DGP_FUNDING_AMOUNT deployConfig],
            EncodeFunctionData ''create''
              (shortTimelockAddress a, [communityTreasuryAddress a], [''0''],
               [''transfer(address,address,uint256)''], [encoded], [False],
               proposalIpfsHashHex a),
            PopulateTransaction deployer
              \<lparr>tx_to = Some (governorAddress a), tx_from = Some (address deployer),
               tx_data = Some callData, tx_rest = []\<rparr>,
            ConsoleLog ''Calldata:'',
            ConsoleLog (case tx_data txRequest of Some d \<Rightarrow> d | None \<Rightarrow> ''undefined''),
            ConsoleLog ''End calldata:'',
            SendTransaction deployer txRequest,
            WaitForTx tx]"
  using assms
  unfolding createGrantsProgramProposal_def Let_def
  by (auto split: option.splits sum.splits prod.splits)

lemma demo_run_result:
  "createGrantsProgramProposal demo_collaborators demo_config demo_params demo_run =
     (Inr \<lparr>proposalId = 3\<rparr>,
      \<lparr>world = 4,
       calls =
         [GetDeployerSigner,
          Log (''Creating Grants Program proposal with proposer 0xD.'' @ [CHR 0x0A]),
          GetProposalsCount (Signer ''0xD'') ''0xG'',
          AbiEncode [''address'', ''address'', ''uint256''] [''0xT'', ''0xM'', ''6250''],
          EncodeFunctionData ''create''
            (''0xS'', [''0xC''], [''0''], [''transfer(address,address,uint256)''],
             [''0xT0xM6250''], [False], ''0x1f''),
          PopulateTransaction (Signer ''0xD'')
            \<lparr>tx_to = Some ''0xG'', tx_from = Some ''0xD'',
             tx_data = Some ''create(0xT0xM6250)'', tx_rest = []\<rparr>,
          ConsoleLog ''Calldata:'',
          ConsoleLog ''create(0xT0xM6250)'',
          ConsoleLog ''End calldata:'',
          SendTransaction (Signer ''0xD'')
            \<lparr>tx_to = Some ''0xG'', tx_from = Some ''0xD'',
             tx_data = Some ''create(0xT0xM6250)'', tx_rest = [(''nonce'', ''0'')]\<rparr>,
          WaitForTx ''0xabc'']\<rparr>)"
  by (simp add: createGrantsProgramProposal_def demo_collaborators_def demo_config_def
        demo_params_def demo_run_def logCall_def)

text \<open>
  Claim C5. A run of \<^verbatim>\<open>createGrantsProgramProposal\<close> that returns has read the governor's
  proposal count in the world as it was before the transaction was sent, has sent the
  transaction and waited for it with success, and returns exactly the count it read. It reads
  the count once, before the one transaction it sends, and never after.
\<close>

theorem createGrantsProgramProposal_returns_presubmission_count:
  assumes "createGrantsProgramProposal c deployConfig a s = (Inr r, s')"
  shows "\<exists>deployer txRequest tx w before between.
      getProposalsCount c deployer (governorAddress a) (world s) = Inr (proposalId r)
    \<and> sendTransaction c deployer txRequest (world s) = (Inr tx, w)
    \<and> waitForTx c tx w = (Inr (), world s')
    \<and> calls s' = calls s @ before @ [GetProposalsCount deployer (governorAddress a)]
         @ between @ [SendTransaction deployer txRequest, WaitForTx tx]
    \<and> (\<forall>sg g. GetProposalsCount sg g \<notin> set before \<union> set between)
    \<and> (\<forall>sg t. SendTransaction sg t \<notin> set before \<union> set between)"
proof -
  from createGrantsProgramProposal_success [OF assms]
  obtain deployer encoded callData txRequest tx w where
    count: "getProposalsCount c deployer (governorAddress a) (world s) = Inr (proposalId r)"
    and send: "sendTransaction c deployer txRequest (world s) = (Inr tx, w)"
    and wait: "waitForTx c tx w = (Inr (), world s')"
    and trace: "calls s' = calls s
         @ (case signer a of Some sg \<Rightarrow> [] | None \<Rightarrow> [GetDeployerSigner])
         @ [Log (''Creating Grants Program proposal with proposer '' @ address deployer
                  @ ''.'' @ [CHR 0x0A]),
            GetProposalsCount deployer (governorAddress a),
            AbiEncode [''address'', ''address'', ''uint256'']
              [dydxTokenAddress a, DGP_MULTISIG_ADDRESS deployConfig,
               DGP_FUNDING_AMOUNT deployConfig],
            EncodeFunctionData ''create''
              (shortTimelockAddress a, [communityTreasuryAddress a], [''0''],
               [''transfer(address,address,uint256)''], [encoded], [False],
               proposalIpfsHashHex a),
            PopulateTransaction deployer
              \<lparr>tx_to = Some (governorAddress a), tx_from = Some (address deployer),
               tx_data = Some callData, tx_rest = []\<rparr>,
            ConsoleLog ''Calldata:'',
            ConsoleLog (case tx_data txRequest of Some d \<Rightarrow> d | None \<Rightarrow> ''undefined''),
            ConsoleLog ''End calldata:'',
            SendTransaction deployer txRequest,
            WaitForTx tx]"
    by blast
  let ?before = "(case signer a of Some sg \<Rightarrow> [] | None \<Rightarrow> [GetDeployerSigner])
         @ [Log (''Creating Grants Program proposal with proposer '' @ address deployer
                  @ ''.'' @ [CHR 0x0A])]"
  let ?between = "[AbiEncode [''address'', ''address'', ''uint256'']
              [dydxTokenAddress a, DGP_MULTISIG_ADDRESS deployConfig,
               DGP_FUNDING_AMOUNT deployConfig],
            EncodeFunctionData ''create''
              (shortTimelockAddress a, [communityTreasuryAddress a], [''0''],
               [''transfer(address,address,uint256)''], [encoded], [False],
               proposalIpfsHashHex a),
            PopulateTransaction deployer
              \<lparr>tx_to = Some (governorAddress a), tx_from = Some (address deployer),
               tx_data = Some callData, tx_rest = []\<rparr>,
            ConsoleLog ''Calldata:'',
            ConsoleLog (case tx_data txRequest of Some d \<Rightarrow> d | None \<Rightarrow> ''undefined''),
            ConsoleLog ''End calldata:'']"
  have shape: "calls s' = calls s @ ?before @ [GetProposalsCount deployer (governorAddress a)]
         @ ?between @ [SendTransaction deployer txRequest, WaitForTx tx]"
    by (simp add: trace)
  have no_count: "\<forall>sg g. GetProposalsCount sg g \<notin> set ?before \<union> set ?between"
    by (simp split: option.splits)
  have no_send: "\<forall>sg t. SendTransaction sg t \<notin> set ?before \<union> set ?between"
    by (simp split: option.splits)
  from count send wait shape no_count no_send show ?thesis by blast
qed

theorem createGrantsProgramProposal_returns_presubmission_count_witness:
  "\<exists>s'. createGrantsProgramProposal demo_collaborators demo_config demo_params demo_run
          = (Inr \<lparr>proposalId = 3\<rparr>, s')
     \<and> world demo_run = 3 \<and> world s' = 4
     \<and> (\<exists>deployer txRequest tx.
          getProposalsCount demo_collaborators deployer ''0xG'' 3 = Inr 3
        \<and> sendTransaction demo_collaborators deployer txRequest 3 = (Inr tx, 4)
        \<and> waitForTx demo_collaborators tx 4 = (Inr (), 4))"
proof -
  from createGrantsProgramProposal_returns_presubmission_count [OF demo_run_result]
  obtain deployer txRequest tx w where
    "getProposalsCount demo_collaborators deployer (governorAddress demo_params) (world demo_run)
       = Inr (proposalId \<lparr>proposalId = 3\<rparr>)"
    and "sendTransaction demo_collaborators deployer txRequest (world demo_run) = (Inr tx, w)"
    and "waitForTx demo_collaborators tx w = (Inr (), 4)"
    by auto
  moreover from this have "w = 4"
    by (simp add: demo_collaborators_def demo_run_def)
  ultimately show ?thesis
    using demo_run_result by (auto simp: demo_params_def demo_run_def)
qed




end
